theory Spec2Isabelle
  imports Complex_Main "HOL-Library.Sublist" "HOL-Library.Log_Nat"
begin

section \<open>Data model\<close>

text \<open>
  The cart service (\<^verbatim>\<open>cart.service.js\<close>) and the auth middleware
  (\<^verbatim>\<open>middlewares/auth.js\<close>) of the QKart backend, embedded shallowly.

  Modelling decisions:
  \<^item> JavaScript numbers (cost, quantity, walletMoney) are IEEE 754 doubles: the type
    \<open>number\<close> below, whose arithmetic rounds every result to the nearest double.
  \<^item> A Mongo collection is the list of its documents. \<^verbatim>\<open>findOne\<close> and
    \<^verbatim>\<open>findById\<close> return the first match, \<^verbatim>\<open>save\<close> replaces the stored
    document that carries the same \<^verbatim>\<open>_id\<close>.
  \<^item> The \<^verbatim>\<open>_id\<close> of a product is an ObjectId; the model keeps its string form
    (what \<^verbatim>\<open>toString()\<close> gives: 24 hexadecimal digits in lower case). The cast of
    a request string to an ObjectId, which \<^verbatim>\<open>findById\<close> performs, belongs to the
    database driver and is a parameter of the operations that look a product up.
  \<^item> A throw is the \<open>Inl\<close> of a sum; every operation returns its outcome together
    with the database as it is when the operation ends.
\<close>

datatype error =
    ApiError (statusCode: nat) (message: string)
  | CastError
  | ValidationError
  | OtherError string

abbreviation BAD_REQUEST :: nat where "BAD_REQUEST \<equiv> 400"
abbreviation UNAUTHORIZED :: nat where "UNAUTHORIZED \<equiv> 401"
abbreviation FORBIDDEN :: nat where "FORBIDDEN \<equiv> 403"
abbreviation NOT_FOUND :: nat where "NOT_FOUND \<equiv> 404"
abbreviation INTERNAL_SERVER_ERROR :: nat where "INTERNAL_SERVER_ERROR \<equiv> 500"

section \<open>Numbers\<close>

text \<open>
  A JavaScript number is a finite double, given by the rational it denotes, one of the
  two infinities, or NaN. The sign of a zero is not kept: the operations of the cart
  service (addition, multiplication, subtraction and \<^verbatim>\<open>>\<close>) do not tell the two zeros apart.
\<close>

datatype number = Fin rat | PInf | MInf | NaN

definition pow2 :: "int \<Rightarrow> rat" where
  "pow2 k = (if 0 \<le> k then 2 ^ nat k else 1 / 2 ^ nat (- k))"

text \<open>The binary exponent of a positive rational \<open>a\<close>: \<open>2 ^ e \<le> a < 2 ^ (e + 1)\<close>.\<close>

definition exponent_of :: "rat \<Rightarrow> int" where
  "exponent_of a =
     (case quotient_of a of (p, q) \<Rightarrow>
        (let d = bitlen p - bitlen q in if pow2 d \<le> a then d else d - 1))"

definition round_half_even :: "rat \<Rightarrow> int" where
  "round_half_even x =
     (let f = \<lfloor>x\<rfloor>; r = x - of_int f
      in if r < 1 / 2 then f else if 1 / 2 < r then f + 1 else if even f then f else f + 1)"

text \<open>
  Rounding of a real result to a double (binary64, round to nearest, ties to even): 53
  significant bits, the spacing never below \<open>2 ^ - 1074\<close> (subnormal numbers), and
  an infinity when the rounded magnitude reaches \<open>2 ^ 1024\<close>.
\<close>

definition to_double :: "rat \<Rightarrow> number" where
  "to_double x =
     (if x = 0 then Fin 0
      else
        (let a = \<bar>x\<bar>;
             k = max (exponent_of a - 52) (- 1074);
             r = of_int (round_half_even (a / pow2 k)) * pow2 k
         in if pow2 1024 \<le> r then (if 0 < x then PInf else MInf)
            else Fin (if 0 < x then r else - r)))"

fun js_neg :: "number \<Rightarrow> number" where
  "js_neg (Fin x) = Fin (- x)"
| "js_neg PInf = MInf"
| "js_neg MInf = PInf"
| "js_neg NaN = NaN"

fun js_add :: "number \<Rightarrow> number \<Rightarrow> number" where
  "js_add (Fin x) (Fin y) = to_double (x + y)"
| "js_add NaN y = NaN"
| "js_add x NaN = NaN"
| "js_add PInf MInf = NaN"
| "js_add MInf PInf = NaN"
| "js_add PInf y = PInf"
| "js_add MInf y = MInf"
| "js_add x PInf = PInf"
| "js_add x MInf = MInf"

definition js_sub :: "number \<Rightarrow> number \<Rightarrow> number" where
  "js_sub x y = js_add x (js_neg y)"

fun js_mul :: "number \<Rightarrow> number \<Rightarrow> number" where
  "js_mul (Fin x) (Fin y) = to_double (x * y)"
| "js_mul NaN y = NaN"
| "js_mul x NaN = NaN"
| "js_mul PInf (Fin y) = (if y = 0 then NaN else if 0 < y then PInf else MInf)"
| "js_mul MInf (Fin y) = (if y = 0 then NaN else if 0 < y then MInf else PInf)"
| "js_mul (Fin x) PInf = (if x = 0 then NaN else if 0 < x then PInf else MInf)"
| "js_mul (Fin x) MInf = (if x = 0 then NaN else if 0 < x then MInf else PInf)"
| "js_mul PInf PInf = PInf"
| "js_mul PInf MInf = MInf"
| "js_mul MInf PInf = MInf"
| "js_mul MInf MInf = PInf"

text \<open>\<^verbatim>\<open>x > y\<close>: false as soon as one side is NaN.\<close>

fun js_gt :: "number \<Rightarrow> number \<Rightarrow> bool" where
  "js_gt (Fin x) (Fin y) = (y < x)"
| "js_gt NaN y = False"
| "js_gt x NaN = False"
| "js_gt MInf y = False"
| "js_gt x PInf = False"
| "js_gt PInf y = True"
| "js_gt x MInf = True"

text \<open>
  Mongoose refuses NaN for a path of type Number: the value is not set, and the
  \<^verbatim>\<open>save\<close> or \<^verbatim>\<open>create\<close> that follows rejects with a validation error.
\<close>

definition valid_number :: "number \<Rightarrow> bool" where
  "valid_number n = (n \<noteq> NaN)"

text \<open>The rational a finite number denotes, and the numbers that denote integers.\<close>

definition valof :: "number \<Rightarrow> rat" where
  "valof n = (case n of Fin x \<Rightarrow> x | PInf \<Rightarrow> 0 | MInf \<Rightarrow> 0 | NaN \<Rightarrow> 0)"

definition is_integer :: "number \<Rightarrow> bool" where
  "is_integer n = (case n of Fin x \<Rightarrow> x \<in> \<int> | PInf \<Rightarrow> False | MInf \<Rightarrow> False | NaN \<Rightarrow> False)"

section \<open>Documents\<close>

text \<open>
  Modelled from the spec: the product and user schemas are not part of the sources at
  hand. The spec lists a product as id, name, cost, category, rating and image, and a
  user as email, wallet balance and shipping address; the code reads
  \<^verbatim>\<open>product._id\<close>, \<^verbatim>\<open>product.cost\<close>, \<^verbatim>\<open>user.email\<close>,
  \<^verbatim>\<open>user.walletMoney\<close> and \<^verbatim>\<open>user.address\<close>.
\<close>

record product =
  product_id :: string
  product_name :: string
  category :: string
  cost :: number
  rating :: number
  product_image :: string

record user =
  user_id :: nat
  user_email :: string
  walletMoney :: number
  address :: string

text \<open>\<^verbatim>\<open>cartItemSchema\<close> and \<^verbatim>\<open>cartSchema\<close> of \<^verbatim>\<open>cart.model.js\<close>.\<close>

record cartItem =
  product :: product
  quantity :: number

record cart =
  cart_id :: nat
  email :: string
  cartItems :: "cartItem list"
  paymentOption :: string

record config =
  default_address :: string
  default_payment_option :: string
  jwt_secret :: string

record database =
  carts :: "cart list"
  products :: "product list"
  users :: "user list"

section \<open>The document store\<close>

definition Cart_findOne :: "string \<Rightarrow> database \<Rightarrow> cart option" where
  "Cart_findOne e db = find (\<lambda>c. email c = e) (carts db)"

text \<open>
  \<^verbatim>\<open>Product.findById(productId)\<close> casts the string to an ObjectId and looks for the
  product with that \<^verbatim>\<open>_id\<close>. \<open>castObjectId\<close> is the cast of the driver: the string
  form of the id the string denotes, or \<open>None\<close> when the string denotes no id; then
  the query rejects with a CastError.
\<close>

definition Product_findById ::
    "(string \<Rightarrow> string option) \<Rightarrow> string \<Rightarrow> database \<Rightarrow> error + product option" where
  "Product_findById castObjectId productId db =
     (case castObjectId productId of
        None \<Rightarrow> Inl CastError
      | Some oid \<Rightarrow> Inr (find (\<lambda>p. product_id p = oid) (products db)))"

definition Cart_save :: "cart \<Rightarrow> database \<Rightarrow> database" where
  "Cart_save c db =
     db\<lparr>carts := map (\<lambda>d. if cart_id d = cart_id c then c else d) (carts db)\<rparr>"

definition User_save :: "user \<Rightarrow> database \<Rightarrow> database" where
  "User_save u db =
     db\<lparr>users := map (\<lambda>d. if user_id d = user_id u then u else d) (users db)\<rparr>"

text \<open>A fresh \<^verbatim>\<open>_id\<close> for a created cart: one above every id in the collection.\<close>

definition fresh_cart_id :: "cart list \<Rightarrow> nat" where
  "fresh_cart_id cs = Suc (fold max (map cart_id cs) 0)"

text \<open>
  \<^verbatim>\<open>Cart.create\<close> validates the new document, stores it, the schema default filling
  \<^verbatim>\<open>paymentOption\<close>, and returns it. It rejects when a quantity is NaN; otherwise
  it never returns a falsy value, so the result is \<open>Some\<close>; the caller's test of the
  result is kept as in the source.
\<close>

definition Cart_create ::
    "config \<Rightarrow> string \<Rightarrow> cartItem list \<Rightarrow> database \<Rightarrow> (error + cart option) \<times> database" where
  "Cart_create cfg e items db =
     (if list_all (\<lambda>item. valid_number (quantity item)) items
      then
        (let c = \<lparr>cart_id = fresh_cart_id (carts db), email = e, cartItems = items,
                   paymentOption = default_payment_option cfg\<rparr>
         in (Inr (Some c), db\<lparr>carts := carts db @ [c]\<rparr>))
      else (Inl ValidationError, db))"

section \<open>Array helpers\<close>

text \<open>\<^verbatim>\<open>Array.prototype.findIndex\<close>: the first index that satisfies the test, or \<open>-1\<close>.\<close>

fun findIndex :: "('a \<Rightarrow> bool) \<Rightarrow> 'a list \<Rightarrow> int" where
  "findIndex P [] = - 1"
| "findIndex P (x # xs) =
     (if P x then 0
      else (let i = findIndex P xs in if i = - 1 then - 1 else i + 1))"

section \<open>The cart service\<close>

text \<open>
  In the tests \<^verbatim>\<open>item.product._id == productId\<close> and
  \<^verbatim>\<open>item.product._id != productId\<close> an ObjectId meets a string: JavaScript compares
  the string form of the id with the string, character by character.
\<close>

definition getCartByUser :: "user \<Rightarrow> database \<Rightarrow> (error + cart) \<times> database" where
  "getCartByUser u db =
     (case Cart_findOne (user_email u) db of
        None \<Rightarrow> (Inl (ApiError NOT_FOUND ''User does not have a cart''), db)
      | Some obtainCart \<Rightarrow> (Inr obtainCart, db))"

definition addProductToCart ::
    "config \<Rightarrow> (string \<Rightarrow> string option) \<Rightarrow> user \<Rightarrow> string \<Rightarrow> number \<Rightarrow> database \<Rightarrow>
     (error + cart) \<times> database" where
  "addProductToCart cfg castObjectId u productId qty db =
     (case Product_findById castObjectId productId db of
        Inl e \<Rightarrow> (Inl e, db)
      | Inr None \<Rightarrow> (Inl (ApiError BAD_REQUEST ''Product doesn't exist in database''), db)
      | Inr (Some foundProduct) \<Rightarrow>
          (case Cart_findOne (user_email u) db of
             None \<Rightarrow>
               (case Cart_create cfg (user_email u) [\<lparr>product = foundProduct, quantity = qty\<rparr>] db of
                  (Inl e, db') \<Rightarrow> (Inl e, db')
                | (Inr None, db') \<Rightarrow> (Inl (ApiError INTERNAL_SERVER_ERROR []), db')
                | (Inr (Some created), db') \<Rightarrow> (Inr created, db'))
           | Some obtainCart \<Rightarrow>
               (let itemAlreadyExist =
                      list_ex (\<lambda>item. product_id (product item) = productId)
                        (cartItems obtainCart)
                in if itemAlreadyExist
                   then (Inl (ApiError BAD_REQUEST
                     ''Product already in cart. Use the cart sidebar to update or remove product from cart''),
                     db)
                   else if \<not> valid_number qty then (Inl ValidationError, db)
                   else
                     (let saved = obtainCart\<lparr>cartItems :=
                            cartItems obtainCart @ [\<lparr>product = foundProduct, quantity = qty\<rparr>]\<rparr>
                      in (Inr saved, Cart_save saved db)))))"

definition updateProductInCart ::
    "(string \<Rightarrow> string option) \<Rightarrow> user \<Rightarrow> string \<Rightarrow> number \<Rightarrow> database \<Rightarrow>
     (error + cart) \<times> database" where
  "updateProductInCart castObjectId u productId qty db =
     (case Cart_findOne (user_email u) db of
        None \<Rightarrow>
          (Inl (ApiError BAD_REQUEST
             ''User does not have a cart. Use POST to create cart and add a product''), db)
      | Some obtainCart \<Rightarrow>
          (case Product_findById castObjectId productId db of
             Inl e \<Rightarrow> (Inl e, db)
           | Inr None \<Rightarrow> (Inl (ApiError BAD_REQUEST ''Product doesn't exist in database''), db)
           | Inr (Some foundProduct) \<Rightarrow>
               (let index = findIndex (\<lambda>ele. product_id (product ele) = productId)
                              (cartItems obtainCart)
                in if index \<noteq> - 1
                   then
                     if \<not> valid_number qty then (Inl ValidationError, db)
                     else
                       (let saved = obtainCart\<lparr>cartItems :=
                              (cartItems obtainCart)[nat index :=
                                 (cartItems obtainCart ! nat index)\<lparr>quantity := qty\<rparr>]\<rparr>
                        in (Inr saved, Cart_save saved db))
                   else (Inl (ApiError BAD_REQUEST ''Product not in cart''), db))))"

definition deleteProductFromCart ::
    "user \<Rightarrow> string \<Rightarrow> database \<Rightarrow> (error + unit) \<times> database" where
  "deleteProductFromCart u productId db =
     (case Cart_findOne (user_email u) db of
        None \<Rightarrow>
          (Inl (ApiError BAD_REQUEST
             ''User does not have a cart. Use POST to create cart and add a product''), db)
      | Some obtainCart \<Rightarrow>
          (let numberOfProductsInCartBeforeDelete = length (cartItems obtainCart);
               filtered = obtainCart\<lparr>cartItems :=
                  filter (\<lambda>item. product_id (product item) \<noteq> productId)
                    (cartItems obtainCart)\<rparr>;
               numberOfProductsInCartAfterDelete = length (cartItems filtered)
           in if numberOfProductsInCartBeforeDelete = numberOfProductsInCartAfterDelete
              then (Inl (ApiError BAD_REQUEST ''Product not in cart''), db)
              else (Inr (), Cart_save filtered db)))"

text \<open>
  \<^verbatim>\<open>checkout\<close> mutates the user object it is given and saves it; the model returns
  the user object as it is when the call ends, next to the database. The result of
  \<^verbatim>\<open>user.hasSetNonDefaultAddress()\<close> is bound to a variable the source never
  reads; the address test is the comparison with the configured default. The total is
  accumulated from \<open>0\<close> in the order of the items, each product and each sum rounded.
  The cart is saved before the wallet is set: when the new balance is NaN the user is
  not saved and the emptied cart stays.
\<close>

definition totalCost :: "cartItem list \<Rightarrow> number" where
  "totalCost items =
     foldl (\<lambda>t item. js_add t (js_mul (cost (product item)) (quantity item))) (Fin 0) items"

definition checkout ::
    "config \<Rightarrow> user \<Rightarrow> database \<Rightarrow> (error + unit) \<times> user \<times> database" where
  "checkout cfg u db =
     (case Cart_findOne (user_email u) db of
        None \<Rightarrow> (Inl (ApiError NOT_FOUND ''User has no Cart''), u, db)
      | Some obtainCart \<Rightarrow>
          if length (cartItems obtainCart) = 0
          then (Inl (ApiError BAD_REQUEST ''Cart has no items''), u, db)
          else if address u = default_address cfg
          then (Inl (ApiError BAD_REQUEST ''User's address is not set''), u, db)
          else if js_gt (totalCost (cartItems obtainCart)) (walletMoney u)
          then (Inl (ApiError BAD_REQUEST ''Insufficient balance''), u, db)
          else
            (let db1 = Cart_save (obtainCart\<lparr>cartItems := []\<rparr>) db;
                 newWallet = js_sub (walletMoney u) (totalCost (cartItems obtainCart))
             in if \<not> valid_number newWallet then (Inl ValidationError, u, db1)
                else
                  (let u' = u\<lparr>walletMoney := newWallet\<rparr>
                   in (Inr (), u', User_save u' db1))))"

section \<open>The auth middleware\<close>

text \<open>
  The decoded token payload. The middleware reads two fields: \<^verbatim>\<open>type\<close>,
  compared with the string \<open>access\<close> (an absent or non-string value is \<open>None\<close>),
  and \<^verbatim>\<open>exp\<close>, a number of seconds (absent is \<open>None\<close>).
\<close>

record jwt_payload =
  payload_type :: "string option"
  payload_exp :: "int option"

text \<open>
  The request: the \<^verbatim>\<open>authorization\<close> header, the \<^verbatim>\<open>userId\<close> path
  parameter and the \<^verbatim>\<open>user\<close> attached by the middleware.
\<close>

record request =
  authorization :: "string option"
  params_userId :: "string option"
  req_user :: "user option"

text \<open>
  What the middleware does with \<^verbatim>\<open>next\<close>: \<^verbatim>\<open>next(err)\<close>, \<^verbatim>\<open>next()\<close>
  with the request as it is then, or nothing at all when the promise it waits for is
  never settled.
\<close>

datatype auth_result =
    Next_error error
  | Next_ok request
  | Unsettled

text \<open>
  \<^verbatim>\<open>verifyCallback\<close> receives \<^verbatim>\<open>(err, user, info)\<close> from the passport strategy;
  \<open>info\<close> stands for \<^verbatim>\<open>info._id.toString()\<close>, \<open>None\<close> when reading it throws.
  The callback is an async function, so a throw inside it settles neither \<^verbatim>\<open>resolve\<close>
  nor \<^verbatim>\<open>reject\<close>.
\<close>

definition verifyCallback ::
    "request \<Rightarrow> error option \<times> user option \<times> string option \<Rightarrow> auth_result" where
  "verifyCallback req r =
     (case r of (err, usr, info) \<Rightarrow>
        (case err of
           Some e \<Rightarrow> Next_error e
         | None \<Rightarrow>
            (case usr of
               None \<Rightarrow> Next_error (ApiError UNAUTHORIZED ''No valid user'')
             | Some u \<Rightarrow>
                (case params_userId req of
                   None \<Rightarrow> Next_ok (req\<lparr>req_user := Some u\<rparr>)
                 | Some userId \<Rightarrow>
                     if userId = [] then Next_ok (req\<lparr>req_user := Some u\<rparr>)
                     else
                       (case info of
                          None \<Rightarrow> Unsettled
                        | Some info_id \<Rightarrow>
                            if userId \<noteq> info_id
                            then Next_error (ApiError FORBIDDEN ''Incorrect userID'')
                            else Next_ok (req\<lparr>req_user := Some u\<rparr>))))))"

text \<open>
  \<^verbatim>\<open>auth\<close>. The library calls are parameters: \<open>verify\<close> is \<^verbatim>\<open>jwt.verify\<close>
  (\<open>None\<close> when it throws), \<open>authenticate\<close> is the passport strategy, giving the
  arguments of the callback, and \<open>now\<close> is \<^verbatim>\<open>Date.now()\<close> in milliseconds.
\<close>

definition auth ::
    "config \<Rightarrow> (string \<Rightarrow> string \<Rightarrow> jwt_payload option) \<Rightarrow>
     (request \<Rightarrow> error option \<times> user option \<times> string option) \<Rightarrow> int \<Rightarrow> request \<Rightarrow> auth_result" where
  "auth cfg verify authenticate now req =
     (case authorization req of
        None \<Rightarrow> Next_error (ApiError UNAUTHORIZED ''No token provided'')
      | Some authHeader \<Rightarrow>
          if authHeader = [] \<or> \<not> prefix ''Bearer '' authHeader
          then Next_error (ApiError UNAUTHORIZED ''No token provided'')
          else
            (let token = drop 7 authHeader in
             case verify token (jwt_secret cfg) of
               None \<Rightarrow> Next_error (ApiError UNAUTHORIZED ''Invalid token'')
             | Some decoded \<Rightarrow>
                 if payload_type decoded \<noteq> Some ''access''
                 then Next_error (ApiError UNAUTHORIZED ''Not an access token'')
                 else if (case payload_exp decoded of
                            None \<Rightarrow> False
                          | Some e \<Rightarrow> e \<noteq> 0 \<and> real_of_int e < real_of_int now / 1000)
                 then Next_error (ApiError UNAUTHORIZED ''Token expired'')
                 else verifyCallback req (authenticate req)))"

text \<open>
  \<^verbatim>\<open>jwt.verify(token, secret)\<close> of the jsonwebtoken library, as \<^verbatim>\<open>auth.js\<close>
  calls it, without options. \<open>decode\<close> stands for parsing the token and checking its
  signature (\<open>None\<close> when the call throws for these). The library then compares
  \<^verbatim>\<open>exp\<close>, when the payload has one, with the clock in whole seconds,
  \<^verbatim>\<open>Math.floor(Date.now() / 1000)\<close>, and throws when the clock has reached it.
\<close>

definition jwt_verify ::
    "(string \<Rightarrow> string \<Rightarrow> jwt_payload option) \<Rightarrow> int \<Rightarrow> string \<Rightarrow> string \<Rightarrow> jwt_payload option" where
  "jwt_verify decode clock token secret =
     (case decode token secret of
        None \<Rightarrow> None
      | Some payload \<Rightarrow>
          (case payload_exp payload of
             None \<Rightarrow> Some payload
           | Some e \<Rightarrow> if e \<le> clock div 1000 then None else Some payload))"

text \<open>
  Modelled from the spec: the routes that chain the middleware and the cart service are
  not part of the sources at hand. The spec gives the control flow as HTTP request, auth
  middleware, cart-service function, persisted document mutation, response: the operation
  runs on the user the middleware attached, and only when it called \<^verbatim>\<open>next()\<close>.
\<close>

definition cart_route ::
    "auth_result \<Rightarrow> (user \<Rightarrow> database \<Rightarrow> database) \<Rightarrow> database \<Rightarrow> database" where
  "cart_route outcome operation db =
     (case outcome of
        Next_ok req \<Rightarrow> (case req_user req of None \<Rightarrow> db | Some u \<Rightarrow> operation u db)
      | Next_error e \<Rightarrow> db
      | Unsettled \<Rightarrow> db)"

section \<open>The cart invariant\<close>

definition cart_inv :: "cart \<Rightarrow> bool" where
  "cart_inv c = distinct (map (\<lambda>item. product_id (product item)) (cartItems c))"

definition user_cart_inv :: "user \<Rightarrow> database \<Rightarrow> bool" where
  "user_cart_inv u db =
     (case Cart_findOne (user_email u) db of None \<Rightarrow> True | Some c \<Rightarrow> cart_inv c)"

definition db_inv :: "database \<Rightarrow> bool" where
  "db_inv db = list_all cart_inv (carts db)"

definition times_in_cart :: "string \<Rightarrow> cart \<Rightarrow> nat" where
  "times_in_cart productId c =
     length (filter (\<lambda>item. product_id (product item) = productId) (cartItems c))"

section \<open>Exact amounts\<close>

text \<open>
  The sum over the items of cost times quantity as a rational, without any rounding,
  and the sum of the magnitudes of these products, which bounds every intermediate
  result of the accumulation.
\<close>

definition exact_total :: "cartItem list \<Rightarrow> rat" where
  "exact_total items =
     (\<Sum>item\<leftarrow>items. valof (cost (product item)) * valof (quantity item))"

definition total_magnitude :: "cartItem list \<Rightarrow> rat" where
  "total_magnitude items =
     (\<Sum>item\<leftarrow>items. \<bar>valof (cost (product item)) * valof (quantity item)\<bar>)"

section \<open>Sample data\<close>

definition sample_config :: config where
  "sample_config = \<lparr>default_address = ''ADDRESS_NOT_SET'',
     default_payment_option = ''PAYMENT_OPTION_DEFAULT'', jwt_secret = ''thisisasamplesecret''\<rparr>"

definition shoes :: product where
  "shoes = \<lparr>product_id = ''5f71c1ca04c69a5874e9fd45'', product_name = ''Shoes'',
     category = ''Fashion'', cost = Fin 150, rating = Fin 5, product_image = ''shoes.png''\<rparr>"

definition tea :: product where
  "tea = \<lparr>product_id = ''5f71c1ca04c69a5874e9fd46'', product_name = ''Tea'',
     category = ''Grocery'', cost = Fin 30, rating = Fin 4, product_image = ''tea.png''\<rparr>"

definition lamp :: product where
  "lamp = \<lparr>product_id = ''5f71c1ca04c69a5874e9fd47'', product_name = ''Lamp'',
     category = ''Home'', cost = Fin 80, rating = Fin 3, product_image = ''lamp.png''\<rparr>"

definition alice :: user where
  "alice = \<lparr>user_id = 1, user_email = ''alice@example.com'', walletMoney = Fin 500,
     address = ''12 Hill Road''\<rparr>"

definition bob :: user where
  "bob = \<lparr>user_id = 2, user_email = ''bob@example.com'', walletMoney = Fin 100,
     address = ''4 Lake View''\<rparr>"

definition carol :: user where
  "carol = \<lparr>user_id = 3, user_email = ''carol@example.com'', walletMoney = Fin 20,
     address = ''9 Mill Lane''\<rparr>"

definition alice_cart :: cart where
  "alice_cart = \<lparr>cart_id = 10, email = ''alice@example.com'',
     cartItems = [\<lparr>product = shoes, quantity = Fin 2\<rparr>, \<lparr>product = tea, quantity = Fin 3\<rparr>],
     paymentOption = ''PAYMENT_OPTION_DEFAULT''\<rparr>"

definition bob_cart :: cart where
  "bob_cart = \<lparr>cart_id = 11, email = ''bob@example.com'', cartItems = [],
     paymentOption = ''PAYMENT_OPTION_DEFAULT''\<rparr>"

definition sample_db :: database where
  "sample_db = \<lparr>carts = [alice_cart, bob_cart], products = [shoes, tea, lamp],
     users = [alice, bob, carol]\<rparr>"

text \<open>
  The cast of the driver on the strings used below: a string of 24 hexadecimal digits,
  in either case, denotes the id whose string form is the same digits in lower case;
  a string such as \<open>no-such-product\<close> denotes no id.
\<close>

definition lower_hex :: "char \<Rightarrow> char" where
  "lower_hex c =
     (case map_of [(CHR ''A'', CHR ''a''), (CHR ''B'', CHR ''b''), (CHR ''C'', CHR ''c''),
                   (CHR ''D'', CHR ''d''), (CHR ''E'', CHR ''e''), (CHR ''F'', CHR ''f'')] c of
        None \<Rightarrow> c
      | Some l \<Rightarrow> l)"

definition cast_hex24 :: "string \<Rightarrow> string option" where
  "cast_hex24 s =
     (if length s = 24 \<and> list_all (\<lambda>c. c \<in> set ''0123456789abcdefABCDEF'') s
      then Some (map lower_hex s) else None)"

text \<open>The id of the tea, written with upper-case digits.\<close>

definition tea_upper :: string where
  "tea_upper = ''5F71C1CA04C69A5874E9FD46''"






text \<open>
  Requests and library behaviours for the auth middleware: a bearer header; tokens that
  do not parse or verify, that decode to a refresh token, to an access token expired in
  2023, to an access token with \<^verbatim>\<open>exp\<close> equal to \<open>0\<close>, and to an access token
  without \<^verbatim>\<open>exp\<close>; a strategy that resolves the user; a clock in 2025.
\<close>

definition bearer_request :: request where
  "bearer_request = \<lparr>authorization = Some ''Bearer header.payload.signature'',
     params_userId = None, req_user = None\<rparr>"

definition decode_throws :: "string \<Rightarrow> string \<Rightarrow> jwt_payload option" where
  "decode_throws token secret = None"

definition decode_refresh :: "string \<Rightarrow> string \<Rightarrow> jwt_payload option" where
  "decode_refresh token secret =
     Some \<lparr>payload_type = Some ''refresh'', payload_exp = Some 1900000000\<rparr>"

definition decode_expired :: "string \<Rightarrow> string \<Rightarrow> jwt_payload option" where
  "decode_expired token secret =
     Some \<lparr>payload_type = Some ''access'', payload_exp = Some 1700000000\<rparr>"

definition decode_epoch :: "string \<Rightarrow> string \<Rightarrow> jwt_payload option" where
  "decode_epoch token secret = Some \<lparr>payload_type = Some ''access'', payload_exp = Some 0\<rparr>"

definition decode_no_exp :: "string \<Rightarrow> string \<Rightarrow> jwt_payload option" where
  "decode_no_exp token secret = Some \<lparr>payload_type = Some ''access'', payload_exp = None\<rparr>"

definition resolves_alice :: "request \<Rightarrow> error option \<times> user option \<times> string option" where
  "resolves_alice req = (None, Some alice, Some ''1'')"

definition clock_2025 :: int where
  "clock_2025 = 1750000000000"

definition delete_tea :: "user \<Rightarrow> database \<Rightarrow> database" where
  "delete_tea u db = snd (deleteProductFromCart u (product_id tea) db)"

section \<open>Facts about numbers\<close>

lemma pow2_pos: "0 < pow2 k"
  by (simp add: pow2_def)

lemma pow2_mono:
  assumes "i \<le> j"
  shows "pow2 i \<le> pow2 j"
proof -
  have eq: "pow2 j = pow2 i * 2 ^ nat (j - i)"
  proof (cases "0 \<le> i")
    case True
    with assms have "nat j = nat i + nat (j - i)" by simp
    with True assms show ?thesis by (simp add: pow2_def power_add)
  next
    case False
    show ?thesis
    proof (cases "0 \<le> j")
      case True
      with False have "nat (j - i) = nat j + nat (- i)" by simp
      with True False show ?thesis by (simp add: pow2_def power_add)
    next
      case j: False
      with assms have "nat (- i) = nat (- j) + nat (j - i)" by simp
      with False j show ?thesis by (simp add: pow2_def power_add)
    qed
  qed
  have "(1::rat) \<le> 2 ^ nat (j - i)" by simp
  then have "pow2 i * 1 \<le> pow2 i * 2 ^ nat (j - i)"
    using pow2_pos [of i] by (intro mult_left_mono) simp_all
  with eq show ?thesis by simp
qed

lemma exponent_of_int_le:
  assumes "0 < z"
  shows "pow2 (exponent_of (of_int z)) \<le> of_int z"
proof -
  have q: "quotient_of (of_int z :: rat) = (z, 1)"
    using quotient_of_int [of z] by (simp add: Rat.of_int_def)
  have b1: "bitlen 1 = 1"
    by (simp add: bitlen_alt_def)
  from bitlen_bounds [OF assms] have lo: "(2::int) ^ nat (bitlen z - 1) \<le> z"
    by simp
  have ge: "0 \<le> bitlen z - 1"
    using assms bitlen_eq_zero_iff [of z] bitlen_nonneg [of z] by linarith
  have "pow2 (bitlen z - 1) = of_int (2 ^ nat (bitlen z - 1))"
    using ge by (simp add: pow2_def)
  also have "\<dots> \<le> of_int z"
    using lo by (simp only: of_int_le_iff)
  finally have "pow2 (bitlen z - 1) \<le> of_int z" .
  then show ?thesis
    by (simp add: exponent_of_def q b1 Let_def)
qed

lemma round_half_even_int [simp]: "round_half_even (of_int m) = m"
  by (simp add: round_half_even_def)

text \<open>An integer of magnitude at most \<open>2 ^ 53\<close> is a double: rounding leaves it alone.\<close>

lemma to_double_int:
  assumes "\<bar>z\<bar> \<le> 2 ^ 53"
  shows "to_double (of_int z) = Fin (of_int z)"
proof (cases "z = 0")
  case True
  then show ?thesis by (simp add: to_double_def)
next
  case False
  define a :: int where "a = \<bar>z\<bar>"
  have a: "0 < a" "a \<le> 2 ^ 53"
    using False assms by (simp_all add: a_def)
  define e where "e = exponent_of (of_int a)"
  define k where "k = max (e - 52) (- 1074)"
  have lo: "pow2 e \<le> of_int a"
    unfolding e_def by (rule exponent_of_int_le [OF a(1)])
  have e53: "e \<le> 53"
  proof (rule ccontr)
    assume "\<not> e \<le> 53"
    then have "pow2 54 \<le> pow2 e" by (intro pow2_mono) simp
    with lo have "pow2 54 \<le> (of_int a :: rat)" by simp
    moreover have "(of_int a :: rat) \<le> of_int (2 ^ 53)"
      using a(2) by (simp only: of_int_le_iff)
    ultimately show False by (simp add: pow2_def)
  qed
  have "\<exists>m. (of_int a :: rat) / pow2 k = of_int m \<and> of_int m * pow2 k = (of_int a :: rat)"
  proof (cases "k \<le> 0")
    case True
    then have "pow2 k = 1 / 2 ^ nat (- k)"
      by (cases "k = 0") (simp_all add: pow2_def)
    then have "(of_int a :: rat) / pow2 k = of_int (a * 2 ^ nat (- k))
        \<and> of_int (a * 2 ^ nat (- k)) * pow2 k = (of_int a :: rat)"
      by simp
    then show ?thesis by blast
  next
    case False
    with e53 have k1: "k = 1" and "e = 53"
      by (simp_all add: k_def)
    with lo have "(2 ^ 53 :: rat) \<le> of_int a"
      by (simp add: pow2_def)
    then have "(of_int (2 ^ 53) :: rat) \<le> of_int a" by simp
    then have "2 ^ 53 \<le> a" by (simp only: of_int_le_iff)
    with a(2) have "a = 2 ^ 53" by simp
    then have "(of_int a :: rat) / pow2 k = of_int (2 ^ 52)
        \<and> of_int (2 ^ 52) * pow2 k = (of_int a :: rat)"
      using k1 by (simp add: pow2_def)
    then show ?thesis by blast
  qed
  then obtain m where m: "(of_int a :: rat) / pow2 k = of_int m"
      "of_int m * pow2 k = (of_int a :: rat)"
    by blast
  have abs: "\<bar>of_int z :: rat\<bar> = of_int a"
    by (simp add: a_def)
  have small: "\<not> pow2 1024 \<le> (of_int a :: rat)"
  proof
    assume "pow2 1024 \<le> (of_int a :: rat)"
    moreover have "(of_int a :: rat) \<le> of_int (2 ^ 53)"
      using a(2) by (simp only: of_int_le_iff)
    moreover have "pow2 54 \<le> pow2 1024" by (intro pow2_mono) simp
    ultimately show False by (simp add: pow2_def)
  qed
  have "to_double (of_int z) = Fin (if 0 < z then of_int a else - of_int a)"
    using False m small unfolding to_double_def abs Let_def e_def [symmetric] k_def [symmetric]
    by simp
  also have "(if 0 < z then (of_int a :: rat) else - of_int a) = of_int z"
    using False by (simp add: a_def)
  finally show ?thesis .
qed

lemma to_double_Ints:
  assumes "x \<in> \<int>" and "\<bar>x\<bar> \<le> 2 ^ 53"
  shows "to_double x = Fin x"
proof -
  from assms(1) obtain z where x: "x = of_int z" by (rule Ints_cases)
  with assms(2) have "(of_int \<bar>z\<bar> :: rat) \<le> of_int (2 ^ 53)" by simp
  then have "\<bar>z\<bar> \<le> 2 ^ 53" by (simp only: of_int_le_iff)
  then show ?thesis unfolding x by (rule to_double_int)
qed

section \<open>Facts about the arithmetic of integers\<close>

lemma valof_Fin [simp]: "valof (Fin x) = x"
  by (simp add: valof_def)

lemma js_mul_Ints:
  assumes "x \<in> \<int>" "y \<in> \<int>" "\<bar>x * y\<bar> \<le> 2 ^ 53"
  shows "js_mul (Fin x) (Fin y) = Fin (x * y)"
  using assms by (simp add: to_double_Ints)

lemma js_add_Ints:
  assumes "x \<in> \<int>" "y \<in> \<int>" "\<bar>x + y\<bar> \<le> 2 ^ 53"
  shows "js_add (Fin x) (Fin y) = Fin (x + y)"
  using assms by (simp add: to_double_Ints)


lemma is_integer_Fin: "is_integer n \<Longrightarrow> \<exists>x. n = Fin x \<and> x \<in> \<int> \<and> valof n = x"
  by (cases n) (simp_all add: is_integer_def valof_def)

lemma accumulate_exact:
  assumes "\<forall>item \<in> set items. is_integer (cost (product item)) \<and> is_integer (quantity item)"
    and "s \<in> \<int>"
    and "\<bar>s\<bar> + total_magnitude items \<le> 2 ^ 53"
  shows "foldl (\<lambda>t item. js_add t (js_mul (cost (product item)) (quantity item))) (Fin s) items
           = Fin (s + exact_total items)"
  using assms
proof (induction items arbitrary: s)
  case Nil
  then show ?case by (simp add: exact_total_def)
next
  case (Cons item items)
  from Cons.prems(1) obtain a q where a: "cost (product item) = Fin a" "a \<in> \<int>"
      "valof (cost (product item)) = a"
    and q: "quantity item = Fin q" "q \<in> \<int>" "valof (quantity item) = q"
    using is_integer_Fin [of "cost (product item)"] is_integer_Fin [of "quantity item"]
    by auto
  have mag: "total_magnitude (item # items) = \<bar>a * q\<bar> + total_magnitude items"
    by (simp add: total_magnitude_def a q)
  have nonneg: "0 \<le> total_magnitude items"
    unfolding total_magnitude_def by (rule sum_list_nonneg) auto
  have bound: "\<bar>s\<bar> + \<bar>a * q\<bar> + total_magnitude items \<le> 2 ^ 53"
    using Cons.prems(3) mag by simp
  have "\<bar>a * q\<bar> \<le> 2 ^ 53"
    using bound nonneg by linarith
  then have mul: "js_mul (Fin a) (Fin q) = Fin (a * q)"
    using a(2) q(2) by (intro js_mul_Ints)
  have "\<bar>s + a * q\<bar> \<le> 2 ^ 53"
    using bound nonneg by linarith
  then have add: "js_add (Fin s) (Fin (a * q)) = Fin (s + a * q)"
    using Cons.prems(2) a(2) q(2) by (intro js_add_Ints) simp_all
  have rest: "\<bar>s + a * q\<bar> + total_magnitude items \<le> 2 ^ 53"
    using bound by linarith
  have "s + a * q \<in> \<int>"
    using Cons.prems(2) a(2) q(2) by simp
  from Cons.IH [OF _ this rest] Cons.prems(1)
  have ih: "foldl (\<lambda>t item. js_add t (js_mul (cost (product item)) (quantity item)))
          (Fin (s + a * q)) items = Fin (s + a * q + exact_total items)"
    by simp
  have "exact_total (item # items) = a * q + exact_total items"
    by (simp add: exact_total_def a q)
  then show ?case
    by (simp only: foldl_Cons a(1) q(1) mul add ih add.assoc)
qed


lemma totalCost_exact:
  assumes "\<forall>item \<in> set items. is_integer (cost (product item)) \<and> is_integer (quantity item)"
    and "total_magnitude items \<le> 2 ^ 53"
  shows "totalCost items = Fin (exact_total items)"
  using accumulate_exact [OF assms(1), of 0] assms(2) by (simp add: totalCost_def)


text \<open>Three times the double nearest to one tenth is not the double nearest to three tenths.\<close>

lemma to_double_tenth: "to_double (1 / 10) = Fin (3602879701896397 / 36028797018963968)"
  by code_simp

lemma three_tenths:
  "js_mul (Fin (3602879701896397 / 36028797018963968)) (Fin 3)
     = Fin (1351079888211149 / 4503599627370496)"
  "to_double (3 / 10) = Fin (5404319552844595 / 18014398509481984)"
  by code_simp+

section \<open>Facts about the document store\<close>

lemma find_map_replace:
  assumes "find (\<lambda>c. email c = e) cs = Some c" and "email c' = e" and "cart_id c' = cart_id c"
  shows "find (\<lambda>d. email d = e) (map (\<lambda>d. if cart_id d = cart_id c' then c' else d) cs) = Some c'"
  using assms by (induction cs) (auto split: if_splits)

lemma Cart_findOne_save:
  assumes "Cart_findOne e db = Some c" and "email c' = e" and "cart_id c' = cart_id c"
  shows "Cart_findOne e (Cart_save c' db) = Some c'"
  using assms find_map_replace [of e "carts db" c c']
  by (simp add: Cart_findOne_def Cart_save_def)

lemma Cart_findOne_email: "Cart_findOne e db = Some c \<Longrightarrow> email c = e"
  by (auto simp: Cart_findOne_def find_Some_iff)

lemma Cart_findOne_User_save [simp]: "Cart_findOne e (User_save u db) = Cart_findOne e db"
  by (simp add: Cart_findOne_def User_save_def)

lemma find_append_new:
  "find P xs = None \<Longrightarrow> P x \<Longrightarrow> find P (xs @ [x]) = Some x"
  by (induction xs) (auto split: if_splits)

lemma Cart_findOne_create:
  assumes "Cart_findOne e db = None" and "list_all (\<lambda>item. valid_number (quantity item)) items"
  shows "\<exists>c. Cart_create cfg e items db = (Inr (Some c), db\<lparr>carts := carts db @ [c]\<rparr>)
           \<and> email c = e \<and> cartItems c = items \<and> paymentOption c = default_payment_option cfg
           \<and> Cart_findOne e (db\<lparr>carts := carts db @ [c]\<rparr>) = Some c"
  using assms by (simp add: Cart_create_def Cart_findOne_def find_append_new Let_def)

lemma Product_findById_id:
  "Product_findById castObjectId productId db = Inr (Some p) \<Longrightarrow>
     castObjectId productId = Some (product_id p)"
  by (auto simp: Product_findById_def find_Some_iff split: option.splits)

lemma findIndex_ge: "- 1 \<le> findIndex P xs"
  by (induction xs) (auto simp: Let_def)

lemma findIndex_absent: "findIndex P xs = - 1 \<longleftrightarrow> (\<forall>x \<in> set xs. \<not> P x)"
proof (induction xs)
  case Nil
  then show ?case by simp
next
  case (Cons a xs)
  have "findIndex P xs + 1 \<noteq> - 1"
    using findIndex_ge [of P xs] by linarith
  with Cons show ?case by (simp add: Let_def)
qed

lemma findIndex_present:
  assumes "\<exists>x \<in> set xs. P x"
  shows "0 \<le> findIndex P xs \<and> nat (findIndex P xs) < length xs
       \<and> P (xs ! nat (findIndex P xs)) \<and> (\<forall>j < nat (findIndex P xs). \<not> P (xs ! j))"
  using assms
proof (induction xs)
  case Nil
  then show ?case by simp
next
  case (Cons a xs)
  show ?case
  proof (cases "P a")
    case True
    then show ?thesis by simp
  next
    case False
    with Cons.prems have ex: "\<exists>x \<in> set xs. P x" by simp
    then have ne: "findIndex P xs \<noteq> - 1" by (simp add: findIndex_absent)
    from Cons.IH [OF ex] have ih: "0 \<le> findIndex P xs" "nat (findIndex P xs) < length xs"
      "P (xs ! nat (findIndex P xs))" "\<forall>j < nat (findIndex P xs). \<not> P (xs ! j)"
      by simp_all
    have idx: "findIndex P (a # xs) = findIndex P xs + 1"
      using False ne by (simp add: Let_def)
    have n: "nat (findIndex P xs + 1) = Suc (nat (findIndex P xs))"
      using ih(1) by simp
    have "\<not> P ((a # xs) ! j)" if "j < Suc (nat (findIndex P xs))" for j
      using that False ih(4) by (cases j) simp_all
    then show ?thesis
      using ih idx n by simp
  qed
qed

section \<open>Facts about the sample data\<close>

lemmas sample_defs = sample_config_def shoes_def tea_def lamp_def alice_def bob_def carol_def
  alice_cart_def bob_cart_def sample_db_def

lemma alice_total: "totalCost (cartItems alice_cart) = Fin 390"
proof -
  have "totalCost (cartItems alice_cart) = Fin (exact_total (cartItems alice_cart))"
    by (rule totalCost_exact) (simp_all add: sample_defs is_integer_def total_magnitude_def)
  then show ?thesis by (simp add: exact_total_def sample_defs)
qed

lemma alice_has_cart: "Cart_findOne (user_email alice) sample_db = Some alice_cart"
  by (simp add: Cart_findOne_def sample_defs)

lemma tea_upper_found: "Product_findById cast_hex24 tea_upper sample_db = Inr (Some tea)"
  by (simp add: Product_findById_def cast_hex24_def lower_hex_def tea_upper_def sample_defs)

lemma no_such_product: "Product_findById cast_hex24 ''no-such-product'' sample_db = Inl CastError"
  by (simp add: Product_findById_def cast_hex24_def)


section \<open>Checkout\<close>




text \<open>
  C2. When the user's cart exists and has no items, \<open>checkout\<close> throws the 400 error
  and leaves the user object and the whole database, the wallet included, as they were.
\<close>

theorem checkout_empty_cart:
  assumes cart: "Cart_findOne (user_email u) db = Some c"
    and empty: "length (cartItems c) = 0"
  shows "checkout cfg u db = (Inl (ApiError BAD_REQUEST ''Cart has no items''), u, db)"
  using cart empty by (simp add: checkout_def)

theorem checkout_empty_cart_witness:
  "checkout sample_config bob sample_db =
     (Inl (ApiError BAD_REQUEST ''Cart has no items''), bob, sample_db)"
proof -
  have cart: "Cart_findOne (user_email bob) sample_db = Some bob_cart"
    by (simp add: Cart_findOne_def sample_defs)
  have empty: "length (cartItems bob_cart) = 0"
    by (simp add: bob_cart_def)
  show ?thesis
    by (rule checkout_empty_cart [OF cart empty])
qed

text \<open>
  C3. For a user with an existing, non-empty cart and an address other than the default
  one: when the computed cart total is strictly above the wallet balance, \<open>checkout\<close>
  throws the 400 error and neither the cart nor the wallet changes; when the total is not
  above the balance, equality included, \<open>checkout\<close> does not fail on the balance check,
  and it succeeds whenever the new balance is a number that can be stored.
\<close>

theorem checkout_balance_check:
  assumes cart: "Cart_findOne (user_email u) db = Some c"
    and nonempty: "cartItems c \<noteq> []"
    and addr: "address u \<noteq> default_address cfg"
  shows "(js_gt (totalCost (cartItems c)) (walletMoney u) \<longrightarrow>
            checkout cfg u db = (Inl (ApiError BAD_REQUEST ''Insufficient balance''), u, db))
       \<and> (\<not> js_gt (totalCost (cartItems c)) (walletMoney u) \<longrightarrow>
            fst (checkout cfg u db) \<noteq> Inl (ApiError BAD_REQUEST ''Insufficient balance'')
            \<and> (valid_number (js_sub (walletMoney u) (totalCost (cartItems c))) \<longrightarrow>
                 fst (checkout cfg u db) = Inr ()))"
  using cart nonempty addr by (simp add: checkout_def Let_def)

theorem checkout_balance_check_witness:
  "totalCost (cartItems alice_cart) = Fin 390
   \<and> checkout sample_config (alice\<lparr>walletMoney := Fin 389\<rparr>) sample_db =
     (Inl (ApiError BAD_REQUEST ''Insufficient balance''), alice\<lparr>walletMoney := Fin 389\<rparr>, sample_db)
   \<and> fst (checkout sample_config (alice\<lparr>walletMoney := Fin 390\<rparr>) sample_db) = Inr ()"
proof -
  let ?poor = "alice\<lparr>walletMoney := Fin 389\<rparr>" and ?exact = "alice\<lparr>walletMoney := Fin 390\<rparr>"
  have cart1: "Cart_findOne (user_email ?poor) sample_db = Some alice_cart"
    by (simp add: Cart_findOne_def sample_defs)
  have cart2: "Cart_findOne (user_email ?exact) sample_db = Some alice_cart"
    by (simp add: Cart_findOne_def sample_defs)
  have nonempty: "cartItems alice_cart \<noteq> []"
    by (simp add: alice_cart_def)
  have addr1: "address ?poor \<noteq> default_address sample_config"
    by (simp add: alice_def sample_config_def)
  have addr2: "address ?exact \<noteq> default_address sample_config"
    by (simp add: alice_def sample_config_def)
  have above: "js_gt (totalCost (cartItems alice_cart)) (walletMoney ?poor)"
    by (simp add: alice_total)
  have equal: "\<not> js_gt (totalCost (cartItems alice_cart)) (walletMoney ?exact)"
    by (simp add: alice_total)
  have valid: "valid_number (js_sub (walletMoney ?exact) (totalCost (cartItems alice_cart)))"
    by (simp add: alice_total js_sub_def valid_number_def to_double_def)
  show ?thesis
    using checkout_balance_check [OF cart1 nonempty addr1]
      checkout_balance_check [OF cart2 nonempty addr2] above equal valid alice_total
    by simp
qed

section \<open>Adding and deleting products\<close>

text \<open>
  When an item of the cart carries the given string as the string form of its product
  id, the second add is refused and nothing is stored.
\<close>

lemma addProductToCart_same_string:
  assumes cart: "Cart_findOne (user_email u) db = Some c"
    and prod: "Product_findById castObjectId productId db = Inr (Some p)"
    and present: "\<exists>item \<in> set (cartItems c). product_id (product item) = productId"
  shows "addProductToCart cfg castObjectId u productId qty db =
           (Inl (ApiError BAD_REQUEST
              ''Product already in cart. Use the cart sidebar to update or remove product from cart''),
            db)"
  using cart prod present by (simp add: addProductToCart_def list_ex_iff)

text \<open>
  C4. The claim asks that an add of a product that is already in the cart be refused with
  a 400 error. At the id of the tea written in upper case, \<^verbatim>\<open>findById\<close> finds the
  tea, which alice's cart holds; the test on the cart items compares the lower-case
  string form of each id with the upper-case string and finds no item; no error is
  thrown, a second item of the tea is appended and stored, and the cart holds the tea
  twice.
\<close>

theorem addProductToCart_upper_case:
  "Cart_findOne (user_email alice) sample_db = Some alice_cart
   \<and> product (cartItems alice_cart ! 1) = tea
   \<and> Product_findById cast_hex24 tea_upper sample_db = Inr (Some tea)
   \<and> addProductToCart sample_config cast_hex24 alice tea_upper (Fin 1) sample_db =
       (Inr (alice_cart\<lparr>cartItems := cartItems alice_cart @ [\<lparr>product = tea, quantity = Fin 1\<rparr>]\<rparr>),
        Cart_save (alice_cart\<lparr>cartItems := cartItems alice_cart @ [\<lparr>product = tea, quantity = Fin 1\<rparr>]\<rparr>)
          sample_db)
   \<and> times_in_cart (product_id tea)
         (alice_cart\<lparr>cartItems := cartItems alice_cart @ [\<lparr>product = tea, quantity = Fin 1\<rparr>]\<rparr>) = 2"
proof -
  have "list_ex (\<lambda>item. product_id (product item) = tea_upper) (cartItems alice_cart) = False"
    by (simp add: tea_upper_def sample_defs)
  then have "addProductToCart sample_config cast_hex24 alice tea_upper (Fin 1) sample_db =
       (Inr (alice_cart\<lparr>cartItems := cartItems alice_cart @ [\<lparr>product = tea, quantity = Fin 1\<rparr>]\<rparr>),
        Cart_save (alice_cart\<lparr>cartItems := cartItems alice_cart @ [\<lparr>product = tea, quantity = Fin 1\<rparr>]\<rparr>)
          sample_db)"
    by (simp add: addProductToCart_def tea_upper_found alice_has_cart valid_number_def Let_def)
  moreover have "product (cartItems alice_cart ! 1) = tea"
    by (simp add: alice_cart_def)
  moreover have "times_in_cart (product_id tea)
         (alice_cart\<lparr>cartItems := cartItems alice_cart @ [\<lparr>product = tea, quantity = Fin 1\<rparr>]\<rparr>) = 2"
    by (simp add: times_in_cart_def sample_defs)
  ultimately show ?thesis
    using alice_has_cart tea_upper_found by simp
qed





section \<open>Updating a quantity\<close>

text \<open>
  When an item of the cart carries the given string as the string form of its product
  id, the update does what its documentation says; with no cart, with a well-formed id
  of no product, or with no item that carries the string, it throws a 400 error.
\<close>

lemma updateProductInCart_same_string:
  "(\<forall>c p. Cart_findOne (user_email u) db = Some c
        \<and> Product_findById castObjectId productId db = Inr (Some p)
        \<and> (\<exists>item \<in> set (cartItems c). product_id (product item) = productId)
        \<and> valid_number qty \<longrightarrow>
      (\<exists>c' i. updateProductInCart castObjectId u productId qty db = (Inr c', Cart_save c' db)
         \<and> Cart_findOne (user_email u) (Cart_save c' db) = Some c'
         \<and> email c' = email c \<and> paymentOption c' = paymentOption c \<and> cart_id c' = cart_id c
         \<and> length (cartItems c') = length (cartItems c)
         \<and> map product (cartItems c') = map product (cartItems c)
         \<and> i < length (cartItems c)
         \<and> product_id (product (cartItems c ! i)) = productId
         \<and> (\<forall>j < i. product_id (product (cartItems c ! j)) \<noteq> productId)
         \<and> quantity (cartItems c' ! i) = qty
         \<and> (\<forall>j < length (cartItems c). j \<noteq> i \<longrightarrow> cartItems c' ! j = cartItems c ! j)))
   \<and> (Cart_findOne (user_email u) db = None \<or> Product_findById castObjectId productId db = Inr None
        \<or> (\<exists>c found. Cart_findOne (user_email u) db = Some c
               \<and> Product_findById castObjectId productId db = Inr found
               \<and> (\<forall>item \<in> set (cartItems c). product_id (product item) \<noteq> productId)) \<longrightarrow>
      (\<exists>m. updateProductInCart castObjectId u productId qty db = (Inl (ApiError BAD_REQUEST m), db)))"
proof -
  let ?P = "\<lambda>ele. product_id (product ele) = productId"
  have ok: "\<exists>c' i. updateProductInCart castObjectId u productId qty db = (Inr c', Cart_save c' db)
         \<and> Cart_findOne (user_email u) (Cart_save c' db) = Some c'
         \<and> email c' = email c \<and> paymentOption c' = paymentOption c \<and> cart_id c' = cart_id c
         \<and> length (cartItems c') = length (cartItems c)
         \<and> map product (cartItems c') = map product (cartItems c)
         \<and> i < length (cartItems c)
         \<and> product_id (product (cartItems c ! i)) = productId
         \<and> (\<forall>j < i. product_id (product (cartItems c ! j)) \<noteq> productId)
         \<and> quantity (cartItems c' ! i) = qty
         \<and> (\<forall>j < length (cartItems c). j \<noteq> i \<longrightarrow> cartItems c' ! j = cartItems c ! j)"
    if cart: "Cart_findOne (user_email u) db = Some c"
      and prod: "Product_findById castObjectId productId db = Inr (Some p)"
      and present: "\<exists>item \<in> set (cartItems c). ?P item"
      and number: "valid_number qty" for c p
  proof -
    let ?xs = "cartItems c"
    let ?i = "nat (findIndex ?P ?xs)"
    let ?c' = "c\<lparr>cartItems := ?xs[?i := (?xs ! ?i)\<lparr>quantity := qty\<rparr>]\<rparr>"
    from findIndex_present [OF present]
    have nonneg: "0 \<le> findIndex ?P ?xs" and lt: "?i < length ?xs"
      and hit: "?P (?xs ! ?i)" and first: "\<forall>j < ?i. \<not> ?P (?xs ! j)"
      by simp_all
    have ne: "findIndex ?P ?xs \<noteq> - 1"
      using nonneg by simp
    have run: "updateProductInCart castObjectId u productId qty db = (Inr ?c', Cart_save ?c' db)"
      using cart prod ne number by (simp add: updateProductInCart_def Let_def)
    have "email ?c' = user_email u"
      using Cart_findOne_email [OF cart] by simp
    then have stored: "Cart_findOne (user_email u) (Cart_save ?c' db) = Some ?c'"
      using Cart_findOne_save [OF cart, of ?c'] by simp
    have prods: "map product (cartItems ?c') = map product ?xs"
      using lt by (simp add: map_update list_update_same_conv)
    have q: "quantity (cartItems ?c' ! ?i) = qty"
      using lt by simp
    have others: "\<forall>j < length ?xs. j \<noteq> ?i \<longrightarrow> cartItems ?c' ! j = ?xs ! j"
      by simp
    have frame: "email ?c' = email c \<and> paymentOption ?c' = paymentOption c
        \<and> cart_id ?c' = cart_id c \<and> length (cartItems ?c') = length ?xs"
      by simp
    show ?thesis
      using run stored frame prods lt hit first q others by blast
  qed
  have no_cart: "\<exists>m. updateProductInCart castObjectId u productId qty db = (Inl (ApiError BAD_REQUEST m), db)"
    if "Cart_findOne (user_email u) db = None"
    using that by (simp add: updateProductInCart_def)
  have no_product: "\<exists>m. updateProductInCart castObjectId u productId qty db = (Inl (ApiError BAD_REQUEST m), db)"
    if "Product_findById castObjectId productId db = Inr None"
    using that by (simp add: updateProductInCart_def split: option.splits)
  have not_in_cart: "\<exists>m. updateProductInCart castObjectId u productId qty db = (Inl (ApiError BAD_REQUEST m), db)"
    if cart: "Cart_findOne (user_email u) db = Some c"
      and looked: "Product_findById castObjectId productId db = Inr found"
      and absent: "\<forall>item \<in> set (cartItems c). \<not> ?P item" for c found
  proof -
    from absent have "findIndex ?P (cartItems c) = - 1"
      by (simp add: findIndex_absent)
    then show ?thesis
      using cart looked by (simp add: updateProductInCart_def Let_def split: option.splits)
  qed
  show ?thesis
    using ok no_cart no_product not_in_cart by blast
qed

text \<open>
  C6. The claim asks for the update whenever the cart exists, the product exists and the
  cart holds an item of the product, and for a 400 error otherwise. At the id of the
  tea written in upper case all three hold for alice, yet the search through the cart
  items compares strings, finds no item and the call throws \<open>Product not in cart\<close>
  with nothing updated. At a string that denotes no id, \<^verbatim>\<open>findById\<close> rejects with a
  CastError, which is not the 400 error.
\<close>

theorem updateProductInCart_upper_case:
  "Cart_findOne (user_email alice) sample_db = Some alice_cart
   \<and> product (cartItems alice_cart ! 1) = tea
   \<and> Product_findById cast_hex24 tea_upper sample_db = Inr (Some tea)
   \<and> updateProductInCart cast_hex24 alice tea_upper (Fin 7) sample_db =
       (Inl (ApiError BAD_REQUEST ''Product not in cart''), sample_db)
   \<and> updateProductInCart cast_hex24 alice ''no-such-product'' (Fin 7) sample_db =
       (Inl CastError, sample_db)"
proof -
  have "findIndex (\<lambda>ele. product_id (product ele) = tea_upper) (cartItems alice_cart) = - 1"
    by (simp add: tea_upper_def sample_defs)
  then have "updateProductInCart cast_hex24 alice tea_upper (Fin 7) sample_db =
       (Inl (ApiError BAD_REQUEST ''Product not in cart''), sample_db)"
    by (simp add: updateProductInCart_def tea_upper_found alice_has_cart)
  moreover have "updateProductInCart cast_hex24 alice ''no-such-product'' (Fin 7) sample_db =
       (Inl CastError, sample_db)"
    by (simp add: updateProductInCart_def no_such_product alice_has_cart)
  moreover have "product (cartItems alice_cart ! 1) = tea"
    by (simp add: alice_cart_def)
  ultimately show ?thesis
    using alice_has_cart tea_upper_found by simp
qed

section \<open>The invariant\<close>

lemma cart_inv_append:
  assumes "cart_inv c" and "\<forall>item \<in> set (cartItems c). product_id (product item) \<noteq> product_id p"
  shows "cart_inv (c\<lparr>cartItems := cartItems c @ [\<lparr>product = p, quantity = q\<rparr>]\<rparr>)"
  using assms by (auto simp: cart_inv_def)

lemma cart_inv_update:
  assumes "cart_inv c"
  shows "cart_inv (c\<lparr>cartItems := (cartItems c)[i := (cartItems c ! i)\<lparr>quantity := q\<rparr>]\<rparr>)"
proof (cases "i < length (cartItems c)")
  case True
  then have "map (\<lambda>item. product_id (product item)) ((cartItems c)[i := (cartItems c ! i)\<lparr>quantity := q\<rparr>])
      = map (\<lambda>item. product_id (product item)) (cartItems c)"
    by (simp add: map_update list_update_same_conv)
  with assms show ?thesis by (simp add: cart_inv_def)
next
  case False
  then have "(cartItems c)[i := (cartItems c ! i)\<lparr>quantity := q\<rparr>] = cartItems c"
    by (intro list_update_beyond) simp
  with assms show ?thesis by (simp add: cart_inv_def)
qed

lemma cart_inv_filter:
  "cart_inv c \<Longrightarrow> cart_inv (c\<lparr>cartItems := filter P (cartItems c)\<rparr>)"
  by (simp add: cart_inv_def distinct_map_filter)

lemma cart_inv_empty: "cart_inv (c\<lparr>cartItems := []\<rparr>)"
  by (simp add: cart_inv_def)

lemma cart_inv_single: "cartItems c = [x] \<Longrightarrow> cart_inv c"
  by (simp add: cart_inv_def)

lemma Cart_findOne_mem: "Cart_findOne e db = Some c \<Longrightarrow> c \<in> set (carts db)"
  by (auto simp: Cart_findOne_def find_Some_iff)

lemma user_cart_inv_save:
  assumes "Cart_findOne (user_email u) db = Some c" and "email c' = email c"
    and "cart_id c' = cart_id c" and "cart_inv c'"
  shows "user_cart_inv u (Cart_save c' db)"
proof -
  have "email c' = user_email u"
    using Cart_findOne_email [OF assms(1)] assms(2) by simp
  from Cart_findOne_save [OF assms(1) this assms(3)] assms(4)
  show ?thesis by (simp add: user_cart_inv_def)
qed

lemma db_inv_save: "db_inv db \<Longrightarrow> cart_inv c' \<Longrightarrow> db_inv (Cart_save c' db)"
  by (auto simp: db_inv_def Cart_save_def list_all_iff)

lemma user_cart_inv_User_save [simp]: "user_cart_inv u (User_save u' db) = user_cart_inv u db"
  by (simp add: user_cart_inv_def)

lemma db_inv_User_save [simp]: "db_inv (User_save u' db) = db_inv db"
  by (simp add: db_inv_def User_save_def)

lemma db_inv_found: "db_inv db \<Longrightarrow> Cart_findOne e db = Some c \<Longrightarrow> cart_inv c"
  using Cart_findOne_mem [of e db c] by (simp add: db_inv_def list_all_iff)

lemma user_cart_inv_found: "user_cart_inv u db \<Longrightarrow> Cart_findOne (user_email u) db = Some c \<Longrightarrow> cart_inv c"
  by (simp add: user_cart_inv_def)

text \<open>What each operation leaves in the database, in terms of the found cart.\<close>

lemma addProductToCart_db:
  "snd (addProductToCart cfg castObjectId u productId qty db) = db
   \<or> (\<exists>p c. Product_findById castObjectId productId db = Inr (Some p)
          \<and> Cart_findOne (user_email u) db = None
          \<and> cartItems c = [\<lparr>product = p, quantity = qty\<rparr>]
          \<and> Cart_findOne (user_email u) (db\<lparr>carts := carts db @ [c]\<rparr>) = Some c
          \<and> snd (addProductToCart cfg castObjectId u productId qty db)
               = db\<lparr>carts := carts db @ [c]\<rparr>)
   \<or> (\<exists>p c. Product_findById castObjectId productId db = Inr (Some p)
          \<and> Cart_findOne (user_email u) db = Some c
          \<and> (\<forall>item \<in> set (cartItems c). product_id (product item) \<noteq> productId)
          \<and> snd (addProductToCart cfg castObjectId u productId qty db)
               = Cart_save (c\<lparr>cartItems := cartItems c @ [\<lparr>product = p, quantity = qty\<rparr>]\<rparr>) db)"
proof (cases "Product_findById castObjectId productId db")
  case (Inl e)
  then show ?thesis by (simp add: addProductToCart_def)
next
  case (Inr found)
  show ?thesis
  proof (cases found)
    case None
    with Inr show ?thesis by (simp add: addProductToCart_def)
  next
    case (Some p)
    with Inr have prod: "Product_findById castObjectId productId db = Inr (Some p)"
      by simp
    show ?thesis
    proof (cases "valid_number qty")
      case False
      then show ?thesis
        by (simp add: addProductToCart_def prod Cart_create_def Let_def split: option.splits)
    next
      case True
      show ?thesis
      proof (cases "Cart_findOne (user_email u) db")
        case None
        have "list_all (\<lambda>item. valid_number (quantity item)) [\<lparr>product = p, quantity = qty\<rparr>]"
          using True by simp
        from Cart_findOne_create [OF None this, of cfg]
        obtain c where c: "Cart_create cfg (user_email u) [\<lparr>product = p, quantity = qty\<rparr>] db
              = (Inr (Some c), db\<lparr>carts := carts db @ [c]\<rparr>)"
          and facts: "cartItems c = [\<lparr>product = p, quantity = qty\<rparr>]"
            "Cart_findOne (user_email u) (db\<lparr>carts := carts db @ [c]\<rparr>) = Some c"
          by blast
        have "snd (addProductToCart cfg castObjectId u productId qty db)
            = db\<lparr>carts := carts db @ [c]\<rparr>"
          using prod None c by (simp add: addProductToCart_def)
        with prod None facts show ?thesis by blast
      next
        case c: (Some c)
        show ?thesis
        proof (cases "\<exists>item \<in> set (cartItems c). product_id (product item) = productId")
          case present: True
          with prod c show ?thesis by (simp add: addProductToCart_def list_ex_iff)
        next
          case False
          with prod c True have "snd (addProductToCart cfg castObjectId u productId qty db)
                   = Cart_save (c\<lparr>cartItems := cartItems c @ [\<lparr>product = p, quantity = qty\<rparr>]\<rparr>) db"
            by (simp add: addProductToCart_def list_ex_iff Let_def)
          with prod c False show ?thesis by blast
        qed
      qed
    qed
  qed
qed

lemma updateProductInCart_db:
  "snd (updateProductInCart castObjectId u productId qty db) = db
   \<or> (\<exists>c i. Cart_findOne (user_email u) db = Some c
          \<and> snd (updateProductInCart castObjectId u productId qty db)
               = Cart_save (c\<lparr>cartItems := (cartItems c)[i := (cartItems c ! i)\<lparr>quantity := qty\<rparr>]\<rparr>) db)"
  by (auto simp: updateProductInCart_def Let_def split: option.splits sum.splits)

lemma deleteProductFromCart_db:
  "snd (deleteProductFromCart u productId db) = db
   \<or> (\<exists>c. Cart_findOne (user_email u) db = Some c
          \<and> snd (deleteProductFromCart u productId db)
               = Cart_save (c\<lparr>cartItems := filter (\<lambda>item. product_id (product item) \<noteq> productId)
                    (cartItems c)\<rparr>) db)"
  by (auto simp: deleteProductFromCart_def Let_def split: option.splits)

lemma checkout_db:
  "snd (snd (checkout cfg u db)) = db
   \<or> (\<exists>c. Cart_findOne (user_email u) db = Some c
          \<and> (snd (snd (checkout cfg u db)) = Cart_save (c\<lparr>cartItems := []\<rparr>) db
             \<or> (\<exists>u'. snd (snd (checkout cfg u db))
                    = User_save u' (Cart_save (c\<lparr>cartItems := []\<rparr>) db))))"
  by (auto simp: checkout_def Let_def split: option.splits)

lemma getCartByUser_db: "snd (getCartByUser u db) = db"
  by (simp add: getCartByUser_def split: option.splits)

lemma addProductToCart_inv:
  assumes canonical: "castObjectId productId = Some productId"
  shows "(user_cart_inv u db \<longrightarrow>
            user_cart_inv u (snd (addProductToCart cfg castObjectId u productId qty db)))
       \<and> (db_inv db \<longrightarrow> db_inv (snd (addProductToCart cfg castObjectId u productId qty db)))"
proof -
  let ?db' = "snd (addProductToCart cfg castObjectId u productId qty db)"
  consider (same) "?db' = db"
    | (created) p c where "cartItems c = [\<lparr>product = p, quantity = qty\<rparr>]"
        "Cart_findOne (user_email u) (db\<lparr>carts := carts db @ [c]\<rparr>) = Some c"
        "?db' = db\<lparr>carts := carts db @ [c]\<rparr>"
    | (appended) p c where "Product_findById castObjectId productId db = Inr (Some p)"
        "Cart_findOne (user_email u) db = Some c"
        "\<forall>item \<in> set (cartItems c). product_id (product item) \<noteq> productId"
        "?db' = Cart_save (c\<lparr>cartItems := cartItems c @ [\<lparr>product = p, quantity = qty\<rparr>]\<rparr>) db"
    using addProductToCart_db [of cfg castObjectId u productId qty db] by blast
  then show ?thesis
  proof cases
    case same
    then show ?thesis by simp
  next
    case created
    from created(1) have "cart_inv c" by (rule cart_inv_single)
    with created(2,3) show ?thesis
      by (simp add: user_cart_inv_def db_inv_def)
  next
    case appended
    let ?c' = "c\<lparr>cartItems := cartItems c @ [\<lparr>product = p, quantity = qty\<rparr>]\<rparr>"
    have pid: "product_id p = productId"
      using Product_findById_id [OF appended(1)] canonical by simp
    have step: "cart_inv ?c'" if "cart_inv c"
      using that appended(3) pid by (intro cart_inv_append) simp_all
    have "user_cart_inv u (Cart_save ?c' db)" if "user_cart_inv u db"
      using user_cart_inv_save [OF appended(2), of ?c'] step user_cart_inv_found [OF that appended(2)]
      by simp
    moreover have "db_inv (Cart_save ?c' db)" if "db_inv db"
      using db_inv_save [OF that] step db_inv_found [OF that appended(2)] by simp
    ultimately show ?thesis using appended(4) by simp
  qed
qed

lemma updateProductInCart_inv:
  "(user_cart_inv u db \<longrightarrow> user_cart_inv u (snd (updateProductInCart castObjectId u productId qty db)))
   \<and> (db_inv db \<longrightarrow> db_inv (snd (updateProductInCart castObjectId u productId qty db)))"
proof -
  let ?db' = "snd (updateProductInCart castObjectId u productId qty db)"
  consider (same) "?db' = db"
    | (saved) c i where "Cart_findOne (user_email u) db = Some c"
        "?db' = Cart_save (c\<lparr>cartItems := (cartItems c)[i := (cartItems c ! i)\<lparr>quantity := qty\<rparr>]\<rparr>) db"
    using updateProductInCart_db [of castObjectId u productId qty db] by blast
  then show ?thesis
  proof cases
    case same
    then show ?thesis by simp
  next
    case saved
    let ?c' = "c\<lparr>cartItems := (cartItems c)[i := (cartItems c ! i)\<lparr>quantity := qty\<rparr>]\<rparr>"
    have "user_cart_inv u (Cart_save ?c' db)" if "user_cart_inv u db"
      using user_cart_inv_save [OF saved(1), of ?c']
        cart_inv_update [OF user_cart_inv_found [OF that saved(1)], of i qty]
      by simp
    moreover have "db_inv (Cart_save ?c' db)" if "db_inv db"
      using db_inv_save [OF that] cart_inv_update [OF db_inv_found [OF that saved(1)], of i qty]
      by simp
    ultimately show ?thesis using saved(2) by simp
  qed
qed

lemma deleteProductFromCart_inv:
  "(user_cart_inv u db \<longrightarrow> user_cart_inv u (snd (deleteProductFromCart u productId db)))
   \<and> (db_inv db \<longrightarrow> db_inv (snd (deleteProductFromCart u productId db)))"
proof -
  let ?db' = "snd (deleteProductFromCart u productId db)"
  let ?keep = "\<lambda>item. product_id (product item) \<noteq> productId"
  consider (same) "?db' = db"
    | (saved) c where "Cart_findOne (user_email u) db = Some c"
        "?db' = Cart_save (c\<lparr>cartItems := filter ?keep (cartItems c)\<rparr>) db"
    using deleteProductFromCart_db [of u productId db] by blast
  then show ?thesis
  proof cases
    case same
    then show ?thesis by simp
  next
    case saved
    let ?c' = "c\<lparr>cartItems := filter ?keep (cartItems c)\<rparr>"
    have "user_cart_inv u (Cart_save ?c' db)" if "user_cart_inv u db"
      using user_cart_inv_save [OF saved(1), of ?c']
        cart_inv_filter [OF user_cart_inv_found [OF that saved(1)], of ?keep]
      by simp
    moreover have "db_inv (Cart_save ?c' db)" if "db_inv db"
      using db_inv_save [OF that] cart_inv_filter [OF db_inv_found [OF that saved(1)], of ?keep]
      by simp
    ultimately show ?thesis using saved(2) by simp
  qed
qed

lemma checkout_inv:
  "(user_cart_inv u db \<longrightarrow> user_cart_inv u (snd (snd (checkout cfg u db))))
   \<and> (db_inv db \<longrightarrow> db_inv (snd (snd (checkout cfg u db))))"
proof -
  let ?db' = "snd (snd (checkout cfg u db))"
  consider (same) "?db' = db"
    | (saved) c where "Cart_findOne (user_email u) db = Some c"
        "?db' = Cart_save (c\<lparr>cartItems := []\<rparr>) db
         \<or> (\<exists>u'. ?db' = User_save u' (Cart_save (c\<lparr>cartItems := []\<rparr>) db))"
    using checkout_db [of cfg u db] by blast
  then show ?thesis
  proof cases
    case same
    then show ?thesis by simp
  next
    case saved
    let ?c' = "c\<lparr>cartItems := []\<rparr>"
    have "user_cart_inv u (Cart_save ?c' db)"
      using user_cart_inv_save [OF saved(1), of ?c'] cart_inv_empty [of c] by simp
    moreover have "db_inv (Cart_save ?c' db)" if "db_inv db"
      using db_inv_save [OF that] cart_inv_empty [of c] by simp
    ultimately show ?thesis using saved(2) by auto
  qed
qed

text \<open>
  On a product id in the form the store prints it (the cast gives the string back), every
  operation keeps the invariant, for the user's stored cart and for all stored carts.
\<close>

lemma cart_invariant_canonical:
  assumes canonical: "castObjectId productId = Some productId"
  shows
    "(user_cart_inv u db \<longrightarrow>
      user_cart_inv u (snd (getCartByUser u db))
    \<and> user_cart_inv u (snd (addProductToCart cfg castObjectId u productId qty db))
    \<and> user_cart_inv u (snd (updateProductInCart castObjectId u productId qty db))
    \<and> user_cart_inv u (snd (deleteProductFromCart u productId db))
    \<and> user_cart_inv u (snd (snd (checkout cfg u db))))
   \<and> (db_inv db \<longrightarrow>
      db_inv (snd (getCartByUser u db))
    \<and> db_inv (snd (addProductToCart cfg castObjectId u productId qty db))
    \<and> db_inv (snd (updateProductInCart castObjectId u productId qty db))
    \<and> db_inv (snd (deleteProductFromCart u productId db))
    \<and> db_inv (snd (snd (checkout cfg u db))))"
  using addProductToCart_inv [where castObjectId = castObjectId and productId = productId
        and u = u and db = db and cfg = cfg and qty = qty, OF canonical]
    updateProductInCart_inv [of u db castObjectId productId qty]
    deleteProductFromCart_inv [of u db productId]
    checkout_inv [of u db cfg]
  by (simp add: getCartByUser_db)

text \<open>
  C5. The claim asks that every operation keep the invariant of at most one item per
  product id. Alice's stored cart, and every stored cart, satisfies it; after
  \<open>addProductToCart\<close> with the id of the tea written in upper case, which succeeds,
  the stored cart of alice holds two items with the same product id and the invariant is
  broken.
\<close>

theorem cart_invariant_broken:
  "user_cart_inv alice sample_db \<and> db_inv sample_db
   \<and> fst (addProductToCart sample_config cast_hex24 alice tea_upper (Fin 1) sample_db) =
       Inr (alice_cart\<lparr>cartItems := cartItems alice_cart @ [\<lparr>product = tea, quantity = Fin 1\<rparr>]\<rparr>)
   \<and> \<not> user_cart_inv alice
         (snd (addProductToCart sample_config cast_hex24 alice tea_upper (Fin 1) sample_db))
   \<and> \<not> db_inv (snd (addProductToCart sample_config cast_hex24 alice tea_upper (Fin 1) sample_db))"
proof -
  let ?c' = "alice_cart\<lparr>cartItems := cartItems alice_cart @ [\<lparr>product = tea, quantity = Fin 1\<rparr>]\<rparr>"
  have "list_ex (\<lambda>item. product_id (product item) = tea_upper) (cartItems alice_cart) = False"
    by (simp add: tea_upper_def sample_defs)
  then have run: "addProductToCart sample_config cast_hex24 alice tea_upper (Fin 1) sample_db =
       (Inr ?c', Cart_save ?c' sample_db)"
    by (simp add: addProductToCart_def tea_upper_found alice_has_cart valid_number_def Let_def)
  have before: "user_cart_inv alice sample_db" "db_inv sample_db"
    by (simp_all add: user_cart_inv_def db_inv_def Cart_findOne_def cart_inv_def sample_defs)
  have broken: "\<not> cart_inv ?c'"
    by (simp add: cart_inv_def sample_defs)
  have stored: "carts (Cart_save ?c' sample_db) = [?c', bob_cart]"
    by (simp add: Cart_save_def sample_defs)
  have "Cart_findOne (user_email alice) (Cart_save ?c' sample_db) = Some ?c'"
    by (simp add: Cart_findOne_def stored) (simp add: sample_defs)
  then have "\<not> user_cart_inv alice (Cart_save ?c' sample_db)"
    using broken by (simp add: user_cart_inv_def)
  moreover have "\<not> db_inv (Cart_save ?c' sample_db)"
    using broken by (simp add: db_inv_def stored)
  ultimately show ?thesis
    using run before by simp
qed

section \<open>Rejection and pass-through in the auth middleware\<close>

lemmas auth_samples = bearer_request_def decode_throws_def decode_refresh_def decode_expired_def
  decode_epoch_def decode_no_exp_def resolves_alice_def clock_2025_def

text \<open>
  C8. For every request with a bearer header whose token does not parse or verify, whose
  decoded \<^verbatim>\<open>type\<close> is not \<open>access\<close>, or whose \<^verbatim>\<open>exp\<close> is in the past, at
  the clock \<^verbatim>\<open>jwt.verify\<close> reads or at the clock the middleware reads, the
  middleware calls \<^verbatim>\<open>next\<close> with a 401 error, whatever the passport strategy would
  answer, and the cart operation behind it does not run: the database is unchanged. The
  clock is not before 1970.
\<close>

theorem auth_rejects:
  assumes hdr: "authorization req = Some authHeader" "prefix ''Bearer '' authHeader"
    and clock: "0 \<le> verify_clock"
    and bad: "decode (drop 7 authHeader) (jwt_secret cfg) = None
       \<or> (\<exists>payload. decode (drop 7 authHeader) (jwt_secret cfg) = Some payload
             \<and> (payload_type payload \<noteq> Some ''access''
                \<or> (\<exists>e. payload_exp payload = Some e
                       \<and> (e \<le> verify_clock div 1000
                          \<or> real_of_int e < real_of_int now / 1000))))"
  shows "(\<exists>m. auth cfg (jwt_verify decode verify_clock) authenticate now req
                = Next_error (ApiError UNAUTHORIZED m))
       \<and> cart_route (auth cfg (jwt_verify decode verify_clock) authenticate now req) operation db
            = db"
proof -
  let ?token = "drop 7 authHeader" and ?secret = "jwt_secret cfg"
  let ?verify = "jwt_verify decode verify_clock"
  have ne: "authHeader \<noteq> []"
    using hdr(2) by auto
  have invalid: "\<exists>m. auth cfg ?verify authenticate now req = Next_error (ApiError UNAUTHORIZED m)"
    if "?verify ?token ?secret = None"
    using that hdr ne by (simp add: auth_def)
  have not_access: "\<exists>m. auth cfg ?verify authenticate now req = Next_error (ApiError UNAUTHORIZED m)"
    if "?verify ?token ?secret = Some payload" "payload_type payload \<noteq> Some ''access''"
    for payload
    using that hdr ne by (simp add: auth_def)
  have expired: "\<exists>m. auth cfg ?verify authenticate now req = Next_error (ApiError UNAUTHORIZED m)"
    if "?verify ?token ?secret = Some payload" "payload_exp payload = Some e" "e \<noteq> 0"
      "real_of_int e < real_of_int now / 1000"
    for payload e
    using that hdr ne by (simp add: auth_def)
  have "\<exists>m. auth cfg ?verify authenticate now req = Next_error (ApiError UNAUTHORIZED m)"
    using bad
  proof (elim disjE exE conjE)
    assume "decode ?token ?secret = None"
    then have "?verify ?token ?secret = None"
      by (simp add: jwt_verify_def)
    then show ?thesis by (rule invalid)
  next
    fix payload
    assume d: "decode ?token ?secret = Some payload"
      and t: "payload_type payload \<noteq> Some ''access''"
    from d have "?verify ?token ?secret = None \<or> ?verify ?token ?secret = Some payload"
      by (simp add: jwt_verify_def split: option.splits)
    then show ?thesis using invalid not_access [OF _ t] by blast
  next
    fix payload e
    assume d: "decode ?token ?secret = Some payload"
      and e: "payload_exp payload = Some e"
      and "e \<le> verify_clock div 1000"
    then have "?verify ?token ?secret = None"
      by (simp add: jwt_verify_def)
    then show ?thesis by (rule invalid)
  next
    fix payload e
    assume d: "decode ?token ?secret = Some payload"
      and e: "payload_exp payload = Some e"
      and past: "real_of_int e < real_of_int now / 1000"
    show ?thesis
    proof (cases "e \<le> verify_clock div 1000")
      case True
      with d e have "?verify ?token ?secret = None"
        by (simp add: jwt_verify_def)
      then show ?thesis by (rule invalid)
    next
      case False
      with d e have v: "?verify ?token ?secret = Some payload"
        by (simp add: jwt_verify_def)
      have "0 \<le> verify_clock div 1000"
        using clock by (simp add: pos_imp_zdiv_nonneg_iff)
      with False have "e \<noteq> 0" by linarith
      show ?thesis
      proof (cases "payload_type payload = Some ''access''")
        case True
        from expired [OF v e \<open>e \<noteq> 0\<close> past] show ?thesis .
      next
        case False
        from not_access [OF v False] show ?thesis .
      qed
    qed
  qed
  then show ?thesis by (auto simp: cart_route_def)
qed

theorem auth_rejects_witness:
  "(\<exists>m. auth sample_config (jwt_verify decode_throws clock_2025) resolves_alice clock_2025
            bearer_request = Next_error (ApiError UNAUTHORIZED m))
   \<and> (\<exists>m. auth sample_config (jwt_verify decode_refresh clock_2025) resolves_alice clock_2025
            bearer_request = Next_error (ApiError UNAUTHORIZED m))
   \<and> (\<exists>m. auth sample_config (jwt_verify decode_expired clock_2025) resolves_alice clock_2025
            bearer_request = Next_error (ApiError UNAUTHORIZED m))
   \<and> (\<exists>m. auth sample_config (jwt_verify decode_epoch clock_2025) resolves_alice clock_2025
            bearer_request = Next_error (ApiError UNAUTHORIZED m))
   \<and> cart_route (auth sample_config (jwt_verify decode_epoch clock_2025) resolves_alice clock_2025
        bearer_request) delete_tea sample_db = sample_db"
proof -
  let ?h = "''Bearer header.payload.signature''"
  have hdr: "authorization bearer_request = Some ?h" "prefix ''Bearer '' ?h"
    by (simp_all add: bearer_request_def)
  have clock: "0 \<le> clock_2025"
    by (simp add: clock_2025_def)
  have throws: "decode_throws (drop 7 ?h) (jwt_secret sample_config) = None
       \<or> (\<exists>payload. decode_throws (drop 7 ?h) (jwt_secret sample_config) = Some payload
             \<and> (payload_type payload \<noteq> Some ''access''
                \<or> (\<exists>e. payload_exp payload = Some e
                       \<and> (e \<le> clock_2025 div 1000
                          \<or> real_of_int e < real_of_int clock_2025 / 1000))))"
    by (simp add: decode_throws_def)
  have refresh: "decode_refresh (drop 7 ?h) (jwt_secret sample_config) = None
       \<or> (\<exists>payload. decode_refresh (drop 7 ?h) (jwt_secret sample_config) = Some payload
             \<and> (payload_type payload \<noteq> Some ''access''
                \<or> (\<exists>e. payload_exp payload = Some e
                       \<and> (e \<le> clock_2025 div 1000
                          \<or> real_of_int e < real_of_int clock_2025 / 1000))))"
    by (simp add: decode_refresh_def)
  have expired: "decode_expired (drop 7 ?h) (jwt_secret sample_config) = None
       \<or> (\<exists>payload. decode_expired (drop 7 ?h) (jwt_secret sample_config) = Some payload
             \<and> (payload_type payload \<noteq> Some ''access''
                \<or> (\<exists>e. payload_exp payload = Some e
                       \<and> (e \<le> clock_2025 div 1000
                          \<or> real_of_int e < real_of_int clock_2025 / 1000))))"
    by (simp add: decode_expired_def clock_2025_def)
  have epoch: "decode_epoch (drop 7 ?h) (jwt_secret sample_config) = None
       \<or> (\<exists>payload. decode_epoch (drop 7 ?h) (jwt_secret sample_config) = Some payload
             \<and> (payload_type payload \<noteq> Some ''access''
                \<or> (\<exists>e. payload_exp payload = Some e
                       \<and> (e \<le> clock_2025 div 1000
                          \<or> real_of_int e < real_of_int clock_2025 / 1000))))"
    by (simp add: decode_epoch_def clock_2025_def)
  show ?thesis
    using auth_rejects [where decode = decode_throws and cfg = sample_config
          and verify_clock = clock_2025 and now = clock_2025 and authenticate = resolves_alice
          and operation = delete_tea and db = sample_db, OF hdr clock throws]
      auth_rejects [where decode = decode_refresh and cfg = sample_config
          and verify_clock = clock_2025 and now = clock_2025 and authenticate = resolves_alice
          and operation = delete_tea and db = sample_db, OF hdr clock refresh]
      auth_rejects [where decode = decode_expired and cfg = sample_config
          and verify_clock = clock_2025 and now = clock_2025 and authenticate = resolves_alice
          and operation = delete_tea and db = sample_db, OF hdr clock expired]
      auth_rejects [where decode = decode_epoch and cfg = sample_config
          and verify_clock = clock_2025 and now = clock_2025 and authenticate = resolves_alice
          and operation = delete_tea and db = sample_db, OF hdr clock epoch]
    by simp
qed

text \<open>
  C9. A token that passes verification and has type \<open>access\<close> but carries no
  \<^verbatim>\<open>exp\<close>, or a falsy one (\<open>0\<close>), is not tested for expiry at any time of the
  clock: the outcome of the middleware is the outcome of identity resolution, that is, of
  \<open>verifyCallback\<close> on what the passport strategy answers.
\<close>

theorem auth_falsy_exp_proceeds:
  assumes hdr: "authorization req = Some authHeader" "prefix ''Bearer '' authHeader"
    and decoded: "verify (drop 7 authHeader) (jwt_secret cfg) = Some decoded"
    and access: "payload_type decoded = Some ''access''"
    and falsy: "payload_exp decoded = None \<or> payload_exp decoded = Some 0"
  shows "auth cfg verify authenticate now req = verifyCallback req (authenticate req)"
proof -
  have ne: "authHeader \<noteq> []"
    using hdr(2) by auto
  from falsy show ?thesis
    using hdr ne decoded access by (auto simp: auth_def)
qed

theorem auth_falsy_exp_proceeds_witness:
  "jwt_verify decode_no_exp clock_2025 (drop 7 ''Bearer header.payload.signature'')
       (jwt_secret sample_config)
     = Some \<lparr>payload_type = Some ''access'', payload_exp = None\<rparr>
   \<and> auth sample_config (jwt_verify decode_no_exp clock_2025) resolves_alice clock_2025
       bearer_request
     = verifyCallback bearer_request (resolves_alice bearer_request)
   \<and> verifyCallback bearer_request (resolves_alice bearer_request)
     = Next_ok (bearer_request\<lparr>req_user := Some alice\<rparr>)"
proof -
  let ?h = "''Bearer header.payload.signature''"
  have hdr: "authorization bearer_request = Some ?h" "prefix ''Bearer '' ?h"
    by (simp_all add: bearer_request_def)
  have decoded: "jwt_verify decode_no_exp clock_2025 (drop 7 ?h) (jwt_secret sample_config)
      = Some \<lparr>payload_type = Some ''access'', payload_exp = None\<rparr>"
    by (simp add: jwt_verify_def decode_no_exp_def)
  have ok: "verifyCallback bearer_request (resolves_alice bearer_request)
     = Next_ok (bearer_request\<lparr>req_user := Some alice\<rparr>)"
    by (simp add: verifyCallback_def resolves_alice_def bearer_request_def)
  show ?thesis
    using auth_falsy_exp_proceeds [where verify = "jwt_verify decode_no_exp clock_2025"
          and cfg = sample_config and authenticate = resolves_alice and now = clock_2025,
        OF hdr decoded] ok decoded
    by simp
qed

end
